theory Spec2Isabelle
  imports Main
begin

section \<open>Managed datastore lifecycle of pkg/cluster/managed.go\<close>

text \<open>
  The file managed.go holds five methods of \<open>Cluster\<close>: the driver resolver
  \<open>assignManagedDriver\<close>, the lifecycle coordinator \<open>start\<close>, the readiness prober
  \<open>testClusterDB\<close>, the route registrar \<open>initClusterDB\<close> and the proxy updater
  \<open>setupEtcdProxy\<close>, with the certificate cleanup \<open>cleanCerts\<close> they hand to the driver.
  Each becomes a function over an explicit world: the environment the driver and the
  operating system act on, and the list of calls the method itself has made.
\<close>

subsection \<open>Errors\<close>

text \<open>
  A Go \<open>error\<close> value. \<open>ErrNotExist op p\<close> is the path error of the system call \<open>op\<close>
  on \<open>p\<close> for which \<open>os.IsNotExist\<close> holds, \<open>ErrSys op p s\<close> a path error with any
  other cause \<open>s\<close>, and \<open>ErrText\<close> an error made from a message (\<open>fmt.Errorf\<close>, or
  whatever a driver returns).
\<close>

datatype error = ErrNotExist string string | ErrSys string string string | ErrText string

fun os_IsNotExist :: "error \<Rightarrow> bool" where
  "os_IsNotExist (ErrNotExist op p) = True"
| "os_IsNotExist (ErrSys op p s) = False"
| "os_IsNotExist (ErrText m) = False"

text \<open>
  The text \<open>%v\<close> prints for an error; a path error prints its operation, its path and
  its cause.
\<close>

fun Error_text :: "error \<Rightarrow> string" where
  "Error_text (ErrNotExist op p) = op @ '' '' @ p @ '': no such file or directory''"
| "Error_text (ErrSys op p s) = op @ '' '' @ p @ '': '' @ s"
| "Error_text (ErrText m) = m"

subsection \<open>The file system and the environment\<close>

text \<open>
  Of a path the methods only ask whether it can be stat'ed and ask to remove it. A path
  is \<open>Missing\<close>; or \<open>Exists\<close>: it can be stat'ed and removed; or \<open>Held s\<close>: it can be
  stat'ed, and removing it fails with \<open>s\<close> (an immutable file, a read-only file system,
  a directory that is not empty); or \<open>Broken s\<close>: every system call on it fails with
  \<open>s\<close>, an error other than "does not exist" (no search permission on the directory,
  an I/O error). The environment is the file system together with the driver's own
  state.
\<close>

datatype fstate = Missing | Exists | Held string | Broken string

record 'd environ =
  files :: "string \<Rightarrow> fstate"
  dstate :: 'd

text \<open>\<open>os.Stat\<close>; the callers drop the file information and keep the error.\<close>

definition os_Stat :: "string \<Rightarrow> 'd environ \<Rightarrow> error option" where
  "os_Stat p e =
     (case files e p of
        Exists \<Rightarrow> None
      | Held s \<Rightarrow> None
      | Missing \<Rightarrow> Some (ErrNotExist ''stat'' p)
      | Broken s \<Rightarrow> Some (ErrSys ''stat'' p s))"

text \<open>\<open>os.Remove\<close>: the error, and the file system afterwards.\<close>

definition os_Remove :: "string \<Rightarrow> 'd environ \<Rightarrow> error option \<times> 'd environ" where
  "os_Remove p e =
     (case files e p of
        Exists \<Rightarrow> (None, e\<lparr>files := (files e)(p := Missing)\<rparr>)
      | Held s \<Rightarrow> (Some (ErrSys ''remove'' p s), e)
      | Missing \<Rightarrow> (Some (ErrNotExist ''remove'' p), e)
      | Broken s \<Rightarrow> (Some (ErrSys ''remove'' p s), e))"

subsection \<open>Calls, and the world\<close>

text \<open>The outcome of the \<open>select\<close> in the prober's retry wait.\<close>

datatype wait_outcome = TimerFired | Cancelled

text \<open>
  What a method does that can be seen from outside: the calls to its driver (named by
  the driver's \<open>EndpointName\<close>), to the operating system, to the proxy and to the logger,
  and its waits.
\<close>

datatype event =
    Call_IsInitialized string
  | Call_Test string
  | Call_Start string
  | Call_Reset string
  | Call_Register string
  | Call_GetMembersClientURLs string
  | Os_Stat string
  | Os_Remove string
  | Proxy_Update "string list"
  | Logrus_Info string
  | Logrus_Warn string
  | Select wait_outcome

record 'd world =
  env :: "'d environ"
  calls :: "event list"

definition emit :: "event \<Rightarrow> 'd world \<Rightarrow> 'd world" where
  "emit ev w = w\<lparr>calls := calls w @ [ev]\<rparr>"

subsection \<open>Configuration, drivers and the cluster\<close>

text \<open>
  \<open>endpoint.Config\<close> of kine: the endpoint string, and its other fields, of which this
  file only ever writes the zero values (\<open>None\<close>).
\<close>

record 'x endpoint_Config =
  Endpoint :: string
  OtherFields :: "'x option"

record 'x config_Control =
  DataDir :: string
  Datastore :: "'x endpoint_Config"
  ClusterInit :: bool
  ClusterReset :: bool
  Token :: string
  JoinURL :: string

text \<open>
  The \<open>managed.Driver\<close> interface. A method takes the environment and returns it
  changed, beside its Go results: \<open>(bool, error)\<close>, \<open>error\<close>, \<open>(http.Handler, error)\<close>
  and \<open>([]string, error)\<close> as they are, \<open>None\<close> for a nil error. \<open>Reset\<close> receives the
  two callbacks. The context argument is left out: cancellation enters through the
  prober's wait only.
\<close>

record ('x, 'd, 'h, 'a) driver =
  EndpointName :: string
  IsInitialized :: "'x config_Control \<Rightarrow> 'd environ \<Rightarrow> (bool \<times> error option) \<times> 'd environ"
  Test :: "'d environ \<Rightarrow> error option \<times> 'd environ"
  Start :: "'a \<Rightarrow> 'd environ \<Rightarrow> error option \<times> 'd environ"
  Reset :: "('d environ \<Rightarrow> error option \<times> 'd environ) \<Rightarrow> ('d environ \<Rightarrow> 'd environ)
              \<Rightarrow> 'd environ \<Rightarrow> error option \<times> 'd environ"
  Register :: "'x config_Control \<Rightarrow> 'h \<Rightarrow> 'd environ \<Rightarrow> ('h \<times> error option) \<times> 'd environ"
  GetMembersClientURLs :: "'d environ \<Rightarrow> (string list \<times> error option) \<times> 'd environ"

record ('x, 'd, 'h, 'a) Cluster =
  config :: "'x config_Control"
  managedDB :: "('x, 'd, 'h, 'a) driver option"
  clientAccessInfo :: 'a

text \<open>
  What managed.go uses and does not define: \<open>version.Program\<close>, \<open>etcd.ResetFile\<close>,
  \<open>filepath.Join\<close>, the method \<open>storageBootstrap\<close> of another file, and the registry
  \<open>managed.Registered()\<close> with its \<open>managed.Default()\<close>. They are parameters.
\<close>

record ('x, 'd, 'h, 'a) externs =
  version_Program :: string
  etcd_ResetFile :: "'x config_Control \<Rightarrow> string"
  filepath_Join :: "string list \<Rightarrow> string"
  storageBootstrap :: "('x, 'd, 'h, 'a) Cluster \<Rightarrow> 'd environ \<Rightarrow> error option \<times> 'd environ"
  managed_Registered :: "('x, 'd, 'h, 'a) driver list"
  managed_Default :: string

subsection \<open>cleanCerts\<close>

definition certs :: "('x, 'd, 'h, 'a) externs \<Rightarrow> ('x, 'd, 'h, 'a) Cluster \<Rightarrow> string list" where
  "certs X c =
     (let dir = DataDir (config c); J = filepath_Join X in
      [J [dir, ''tls'', ''client-ca.crt''],
       J [dir, ''tls'', ''client-ca.key''],
       J [dir, ''tls'', ''server-ca.crt''],
       J [dir, ''tls'', ''server-ca.key''],
       J [dir, ''tls'', ''request-header-ca.crt''],
       J [dir, ''tls'', ''request-header-ca.key''],
       J [dir, ''tls'', ''service.key''],
       J [dir, ''tls'', ''client-admin.crt''],
       J [dir, ''tls'', ''client-admin.key''],
       J [dir, ''tls'', ''client-controller.crt''],
       J [dir, ''tls'', ''client-controller.key''],
       J [dir, ''tls'', ''client-cloud-controller.crt''],
       J [dir, ''tls'', ''client-cloud-controller.key''],
       J [dir, ''tls'', ''client-scheduler.crt''],
       J [dir, ''tls'', ''client-scheduler.key''],
       J [dir, ''tls'', ''client-kube-apiserver.crt''],
       J [dir, ''tls'', ''client-kube-apiserver.key''],
       J [dir, ''tls'', ''client-kube-proxy.crt''],
       J [dir, ''tls'', ''client-kube-proxy.key''],
       J [dir, ''tls'', ''client-'' @ version_Program X @ ''-controller.crt''],
       J [dir, ''tls'', ''client-'' @ version_Program X @ ''-controller.key''],
       J [dir, ''tls'', ''serving-kube-apiserver.crt''],
       J [dir, ''tls'', ''serving-kube-apiserver.key''],
       J [dir, ''tls'', ''client-kubelet.key''],
       J [dir, ''tls'', ''serving-kubelet.key''],
       J [dir, ''tls'', ''serving-kubelet.key''],
       J [dir, ''tls'', ''client-auth-proxy.key''],
       J [dir, ''tls'', ''etcd'', ''server-ca.crt''],
       J [dir, ''tls'', ''etcd'', ''server-ca.key''],
       J [dir, ''tls'', ''etcd'', ''peer-ca.crt''],
       J [dir, ''tls'', ''etcd'', ''peer-ca.key''],
       J [dir, ''tls'', ''etcd'', ''server-client.crt''],
       J [dir, ''tls'', ''etcd'', ''server-client.key''],
       J [dir, ''tls'', ''etcd'', ''peer-server-client.crt''],
       J [dir, ''tls'', ''etcd'', ''peer-server-client.key''],
       J [dir, ''tls'', ''etcd'', ''client.crt''],
       J [dir, ''tls'', ''etcd'', ''client.key'']])"

text \<open>The loop \<open>for _, cert := range certs { os.Remove(cert) }\<close>; each error is dropped.\<close>

fun remove_each :: "string list \<Rightarrow> 'd environ \<Rightarrow> 'd environ" where
  "remove_each [] e = e"
| "remove_each (cert # rest) e = remove_each rest (snd (os_Remove cert e))"

definition cleanCerts ::
  "('x, 'd, 'h, 'a) externs \<Rightarrow> ('x, 'd, 'h, 'a) Cluster \<Rightarrow> 'd environ \<Rightarrow> 'd environ" where
  "cleanCerts X c e = remove_each (certs X c) e"

subsection \<open>start\<close>

text \<open>The error of line 114.\<close>

definition reset_done_error :: "string \<Rightarrow> string \<Rightarrow> error" where
  "reset_done_error program resetFile =
     ErrText (''cluster-reset was successfully performed, please remove the cluster-reset flag and start ''
       @ program
       @ '' normally, if you need to perform another cluster reset, you must first manually delete the ''
       @ resetFile @ '' file'')"

text \<open>
  Lines 124 to 127, which both branches of the reset test reach: remove the reset file,
  dropping the error, and return what the driver's \<open>Start\<close> returns.
\<close>

definition start_db ::
  "('x, 'd, 'h, 'a) Cluster \<Rightarrow> ('x, 'd, 'h, 'a) driver \<Rightarrow> string \<Rightarrow> 'd world \<Rightarrow> error option \<times> 'd world" where
  "start_db c db resetFile w =
     (let w1 = emit (Os_Remove resetFile) (w\<lparr>env := snd (os_Remove resetFile (env w))\<rparr>);
          (err, e2) = Start db (clientAccessInfo c) (env w1)
      in (err, emit (Call_Start (EndpointName db)) (w1\<lparr>env := e2\<rparr>)))"

definition start ::
  "('x, 'd, 'h, 'a) externs \<Rightarrow> ('x, 'd, 'h, 'a) Cluster \<Rightarrow> 'd world \<Rightarrow> error option \<times> 'd world" where
  "start X c w =
     (let resetFile = etcd_ResetFile X (config c) in
      case managedDB c of
        None \<Rightarrow> (None, w)
      | Some db \<Rightarrow>
          if ClusterReset (config c) then
            (let w1 = emit (Os_Stat resetFile) w in
             case os_Stat resetFile (env w1) of
               Some err \<Rightarrow>
                 if \<not> os_IsNotExist err then (Some err, w1)
                 else
                   (let rebootstrap = storageBootstrap X c;
                        (rerr, e2) = Reset db rebootstrap (cleanCerts X c) (env w1);
                        w2 = emit (Call_Reset (EndpointName db)) (w1\<lparr>env := e2\<rparr>)
                    in case rerr of
                         Some err \<Rightarrow> (Some err, w2)
                       | None \<Rightarrow> start_db c db resetFile w2)
             | None \<Rightarrow> (Some (reset_done_error (version_Program X) resetFile), w1))
          else start_db c db resetFile w)"

subsection \<open>initClusterDB\<close>

definition strings_HasPrefix :: "string \<Rightarrow> string \<Rightarrow> bool" where
  "strings_HasPrefix s p = (take (length p) s = p)"

definition initClusterDB ::
  "('x, 'd, 'h, 'a) Cluster \<Rightarrow> 'h \<Rightarrow> 'd world
     \<Rightarrow> ('h \<times> error option) \<times> ('x, 'd, 'h, 'a) Cluster \<times> 'd world" where
  "initClusterDB c handler w =
     (case managedDB c of
        None \<Rightarrow> ((handler, None), c, w)
      | Some db \<Rightarrow>
          (let c1 = (if \<not> strings_HasPrefix (Endpoint (Datastore (config c))) (EndpointName db @ ''://'')
                     then c\<lparr>config := (config c)\<lparr>Datastore :=
                            \<lparr>Endpoint = EndpointName db, OtherFields = None\<rparr>\<rparr>\<rparr>
                     else c);
               (res, e1) = Register db (config c1) handler (env w)
           in (res, c1, emit (Call_Register (EndpointName db)) (w\<lparr>env := e1\<rparr>))))"

subsection \<open>assignManagedDriver\<close>

text \<open>A loop either returns from the method or runs out and lets the method go on.\<close>

datatype 'r flow = Returned 'r | Fallthrough

text \<open>The first loop, lines 153 to 160.\<close>

fun assign_initialized ::
  "('x, 'd, 'h, 'a) driver list \<Rightarrow> ('x, 'd, 'h, 'a) Cluster \<Rightarrow> 'd world
     \<Rightarrow> (error option \<times> ('x, 'd, 'h, 'a) Cluster) flow \<times> 'd world" where
  "assign_initialized [] c w = (Fallthrough, w)"
| "assign_initialized (driver # rest) c w =
     (case IsInitialized driver (config c) (env w) of
        ((ok, err), e1) \<Rightarrow>
          (let w1 = emit (Call_IsInitialized (EndpointName driver)) (w\<lparr>env := e1\<rparr>) in
           case err of
             Some e \<Rightarrow> (Returned (Some e, c), w1)
           | None \<Rightarrow>
               if ok then (Returned (None, c\<lparr>managedDB := Some driver\<rparr>), w1)
               else assign_initialized rest c w1))"

text \<open>\<open>strings.SplitN(s, sep, 2)\<close> for a separator of one character.\<close>

definition strings_SplitN2 :: "string \<Rightarrow> char \<Rightarrow> string list" where
  "strings_SplitN2 s sep =
     (if sep \<in> set s
      then [takeWhile (\<lambda>ch. ch \<noteq> sep) s, tl (dropWhile (\<lambda>ch. ch \<noteq> sep) s)]
      else [s])"

text \<open>The second loop, lines 165 to 170, and the third, lines 174 to 179.\<close>

fun assign_by_name ::
  "('x, 'd, 'h, 'a) driver list \<Rightarrow> string \<Rightarrow> ('x, 'd, 'h, 'a) Cluster
     \<Rightarrow> (error option \<times> ('x, 'd, 'h, 'a) Cluster) flow" where
  "assign_by_name [] name c = Fallthrough"
| "assign_by_name (driver # rest) name c =
     (if name = EndpointName driver then Returned (None, c\<lparr>managedDB := Some driver\<rparr>)
      else assign_by_name rest name c)"

fun assign_default ::
  "('x, 'd, 'h, 'a) driver list \<Rightarrow> string \<Rightarrow> ('x, 'd, 'h, 'a) Cluster
     \<Rightarrow> (error option \<times> ('x, 'd, 'h, 'a) Cluster) flow" where
  "assign_default [] dflt c = Fallthrough"
| "assign_default (driver # rest) dflt c =
     (if EndpointName driver = dflt then Returned (None, c\<lparr>managedDB := Some driver\<rparr>)
      else assign_default rest dflt c)"

definition assignManagedDriver ::
  "('x, 'd, 'h, 'a) externs \<Rightarrow> ('x, 'd, 'h, 'a) Cluster \<Rightarrow> 'd world
     \<Rightarrow> (error option \<times> ('x, 'd, 'h, 'a) Cluster) \<times> 'd world" where
  "assignManagedDriver X c w =
     (case assign_initialized (managed_Registered X) c w of
        (Returned r, w1) \<Rightarrow> (r, w1)
      | (Fallthrough, w1) \<Rightarrow>
          (let endpointType = strings_SplitN2 (Endpoint (Datastore (config c))) CHR '':'' ! 0 in
           case assign_by_name (managed_Registered X) endpointType c of
             Returned r \<Rightarrow> (r, w1)
           | Fallthrough \<Rightarrow>
               if Endpoint (Datastore (config c)) = ''''
                  \<and> (ClusterInit (config c) \<or> (Token (config c) \<noteq> '''' \<and> JoinURL (config c) \<noteq> ''''))
               then (case assign_default (managed_Registered X) (managed_Default X) c of
                       Returned r \<Rightarrow> (r, w1)
                     | Fallthrough \<Rightarrow> ((None, c), w1))
               else ((None, c), w1)))"

subsection \<open>testClusterDB\<close>

datatype chan = Open | Closed

text \<open>
  The loop of the background task, lines 34 to 47. \<open>sched k\<close> is the outcome of the
  \<open>select\<close> in the wait that follows the \<open>k\<close>-th failed test. The loop need not return:
  its value is then \<open>None\<close>.
\<close>

partial_function (option) testClusterDB_loop ::
  "('x, 'd, 'h, 'a) driver \<Rightarrow> (nat \<Rightarrow> wait_outcome) \<Rightarrow> nat \<Rightarrow> 'd world \<Rightarrow> 'd world option" where
  "testClusterDB_loop db sched k w =
     (case Test db (env w) of
        (err, e1) \<Rightarrow>
          (let w1 = emit (Call_Test (EndpointName db)) (w\<lparr>env := e1\<rparr>) in
           case err of
             None \<Rightarrow> Some (emit (Logrus_Info (EndpointName db @ '' data store connection OK'')) w1)
           | Some e \<Rightarrow>
               (let w2 = emit (Logrus_Info (''Failed to test data store connection: '' @ Error_text e)) w1;
                    w3 = emit (Select (sched k)) w2
                in case sched k of
                     TimerFired \<Rightarrow> testClusterDB_loop db sched (Suc k) w3
                   | Cancelled \<Rightarrow> Some w3)))"

text \<open>
  The background task, lines 32 to 48: the loop, and \<open>defer close(result)\<close> when it
  returns. The value is the channel and the world at the task's end.
\<close>

definition testClusterDB_task ::
  "('x, 'd, 'h, 'a) driver \<Rightarrow> (nat \<Rightarrow> wait_outcome) \<Rightarrow> 'd world \<Rightarrow> (chan \<times> 'd world) option" where
  "testClusterDB_task db sched w =
     (case testClusterDB_loop db sched 0 w of
        None \<Rightarrow> None
      | Some w1 \<Rightarrow> Some (Closed, w1))"

text \<open>
  The method itself: the channel as it is when the method returns, the error, and the
  driver of the background task it has started, if any.
\<close>

definition testClusterDB ::
  "('x, 'd, 'h, 'a) Cluster \<Rightarrow> (chan \<times> error option) \<times> ('x, 'd, 'h, 'a) driver option" where
  "testClusterDB c =
     (case managedDB c of
        None \<Rightarrow> ((Closed, None), None)
      | Some db \<Rightarrow> ((Open, None), Some db))"

subsection \<open>setupEtcdProxy\<close>

text \<open>
  Modelled from the spec: the routing proxy \<open>etcd.Proxy\<close> is an interface of
  pkg/etcd, which managed.go only calls; of its state the spec names the "address set".
\<close>

record proxy =
  addresses :: "string list"

text \<open>
  Modelled from the spec: \<open>Update(addresses)\<close> of \<open>etcd.Proxy\<close>, missing here, "replaces
  the proxy's known address set".
\<close>

definition proxy_Update :: "string list \<Rightarrow> proxy \<Rightarrow> proxy" where
  "proxy_Update newAddresses p = p\<lparr>addresses := newAddresses\<rparr>"

text \<open>One pass of the body of \<open>for range t.C\<close>, lines 194 to 199.\<close>

definition setupEtcdProxy_cycle ::
  "('x, 'd, 'h, 'a) driver \<Rightarrow> 'd world \<times> proxy \<Rightarrow> 'd world \<times> proxy" where
  "setupEtcdProxy_cycle db wp =
     (case wp of (w, etcdProxy) \<Rightarrow>
        (case GetMembersClientURLs db (env w) of
           ((newAddresses, err), e1) \<Rightarrow>
             (let w1 = emit (Call_GetMembersClientURLs (EndpointName db)) (w\<lparr>env := e1\<rparr>) in
              case err of
                Some e \<Rightarrow>
                  (emit (Logrus_Warn (''failed to get etcd client URLs: '' @ Error_text e)) w1, etcdProxy)
              | None \<Rightarrow>
                  (emit (Proxy_Update newAddresses) w1, proxy_Update newAddresses etcdProxy))))"

text \<open>
  The ticker never stops, so the task never returns; \<open>setupEtcdProxy_ticks db n\<close> is
  where it stands after the first \<open>n\<close> ticks.
\<close>

fun setupEtcdProxy_ticks ::
  "('x, 'd, 'h, 'a) driver \<Rightarrow> nat \<Rightarrow> 'd world \<times> proxy \<Rightarrow> 'd world \<times> proxy" where
  "setupEtcdProxy_ticks db 0 wp = wp"
| "setupEtcdProxy_ticks db (Suc n) wp = setupEtcdProxy_ticks db n (setupEtcdProxy_cycle db wp)"

text \<open>The method: the driver of the background task it starts, if any.\<close>

definition setupEtcdProxy :: "('x, 'd, 'h, 'a) Cluster \<Rightarrow> ('x, 'd, 'h, 'a) driver option" where
  "setupEtcdProxy c = (case managedDB c of None \<Rightarrow> None | Some db \<Rightarrow> Some db)"

section \<open>Notions the properties are stated with\<close>

subsection \<open>The resolver's probes\<close>

text \<open>
  A driver's \<open>IsInitialized\<close> may change the environment, so what a driver reports is
  read in the environment the earlier probes have left. \<open>none_initialized ds cfg e\<close>:
  probed in order from \<open>e\<close>, every driver of \<open>ds\<close> answers "not initialized" with no
  error. \<open>after_probes ds cfg e\<close> is the environment after these probes, and
  \<open>probes ds\<close> the calls they are.
\<close>

fun none_initialized ::
  "('x, 'd, 'h, 'a) driver list \<Rightarrow> 'x config_Control \<Rightarrow> 'd environ \<Rightarrow> bool" where
  "none_initialized [] cfg e = True"
| "none_initialized (driver # rest) cfg e =
     (case IsInitialized driver cfg e of
        (r, e1) \<Rightarrow> r = (False, None) \<and> none_initialized rest cfg e1)"

fun after_probes ::
  "('x, 'd, 'h, 'a) driver list \<Rightarrow> 'x config_Control \<Rightarrow> 'd environ \<Rightarrow> 'd environ" where
  "after_probes [] cfg e = e"
| "after_probes (driver # rest) cfg e = after_probes rest cfg (snd (IsInitialized driver cfg e))"

definition probes :: "('x, 'd, 'h, 'a) driver list \<Rightarrow> event list" where
  "probes ds = map (\<lambda>driver. Call_IsInitialized (EndpointName driver)) ds"

text \<open>The configured endpoint up to, not including, its first colon.\<close>

definition endpoint_type :: "'x config_Control \<Rightarrow> string" where
  "endpoint_type cfg = takeWhile (\<lambda>ch. ch \<noteq> CHR '':'') (Endpoint (Datastore cfg))"

text \<open>
  The endpoint is empty and cluster-init is requested or a join token and a join URL
  are both supplied.
\<close>

definition bootstrap_requested :: "'x config_Control \<Rightarrow> bool" where
  "bootstrap_requested cfg =
     (Endpoint (Datastore cfg) = '''' \<and> (ClusterInit cfg \<or> (Token cfg \<noteq> '''' \<and> JoinURL cfg \<noteq> '''')))"

subsection \<open>The prober's failed rounds\<close>

text \<open>
  \<open>tests_fail db n e\<close>: called \<open>n\<close> times in a row from \<open>e\<close>, \<open>Test\<close> fails each time.
  \<open>after_tests db n e\<close> is the environment after \<open>n\<close> calls. \<open>failed_rounds db sched k n e\<close>
  is what \<open>n\<close> failed rounds of the loop do, the first of them followed by wait \<open>k\<close>:
  a call of \<open>Test\<close>, the log line of its error, and the wait.
\<close>

fun tests_fail :: "('x, 'd, 'h, 'a) driver \<Rightarrow> nat \<Rightarrow> 'd environ \<Rightarrow> bool" where
  "tests_fail db 0 e = True"
| "tests_fail db (Suc n) e =
     (case Test db e of (err, e1) \<Rightarrow> err \<noteq> None \<and> tests_fail db n e1)"

fun after_tests :: "('x, 'd, 'h, 'a) driver \<Rightarrow> nat \<Rightarrow> 'd environ \<Rightarrow> 'd environ" where
  "after_tests db 0 e = e"
| "after_tests db (Suc n) e = after_tests db n (snd (Test db e))"

fun failed_rounds ::
  "('x, 'd, 'h, 'a) driver \<Rightarrow> (nat \<Rightarrow> wait_outcome) \<Rightarrow> nat \<Rightarrow> nat \<Rightarrow> 'd environ \<Rightarrow> event list" where
  "failed_rounds db sched k 0 e = []"
| "failed_rounds db sched k (Suc n) e =
     (case Test db e of
        (Some err, e1) \<Rightarrow>
          [Call_Test (EndpointName db),
           Logrus_Info (''Failed to test data store connection: '' @ Error_text err),
           Select (sched k)] @ failed_rounds db sched (Suc k) n e1
      | (None, e1) \<Rightarrow> [])"

subsection \<open>The removal of the reset file\<close>

text \<open>
  \<open>os.Remove\<close> has left the path absent when it returns no error, or the error "does
  not exist". \<open>start\<close> drops what it returns, so this is said of the result apart.
\<close>

definition remove_done :: "error option \<Rightarrow> bool" where
  "remove_done r = (case r of None \<Rightarrow> True | Some err \<Rightarrow> os_IsNotExist err)"

section \<open>Stub drivers and a test cluster\<close>

text \<open>
  The stubs the concrete runs below use. \<open>stub_driver name\<close> is initialized when its
  database directory exists, fails its first two tests, resets by running the cleanup and
  the rebootstrap and leaving the reset file behind, adds a route on registration, and
  fails its second membership query. \<open>failing_driver name\<close> cannot read its disk state
  and cannot reset. \<open>sticky_driver name\<close> resets with no error and leaves the reset file
  behind as a directory that is not empty.
\<close>

fun join_slash :: "string list \<Rightarrow> string" where
  "join_slash [] = ''''"
| "join_slash [x] = x"
| "join_slash (x # y # ys) = x @ ''/'' @ join_slash (y # ys)"

definition stub_driver :: "string \<Rightarrow> (unit, nat, string list, string) driver" where
  "stub_driver name =
     \<lparr>EndpointName = name,
      IsInitialized = (\<lambda>cfg e. ((files e (DataDir cfg @ ''/db/'' @ name) = Exists, None), e)),
      Test = (\<lambda>e. (if dstate e < 2 then Some (ErrText ''connection refused'') else None,
                    e\<lparr>dstate := Suc (dstate e)\<rparr>)),
      Start = (\<lambda>info e. (None, e\<lparr>dstate := 0\<rparr>)),
      Reset = (\<lambda>rebootstrap cleanup e.
                 case rebootstrap (cleanup e) of
                   (err, e1) \<Rightarrow> (err, e1\<lparr>files := (files e1)(''/data/db/reset-flag'' := Exists)\<rparr>)),
      Register = (\<lambda>cfg handler e.
                    ((handler @ [''/db/info?endpoint='' @ Endpoint (Datastore cfg)], None), e)),
      GetMembersClientURLs =
        (\<lambda>e. (if dstate e = 0 then ([''https://10.0.0.1:2379''], None)
                else if dstate e = 1 then ([], Some (ErrText ''context deadline exceeded''))
                else ([''https://10.0.0.1:2379'', ''https://10.0.0.2:2379''], None),
               e\<lparr>dstate := Suc (dstate e)\<rparr>))\<rparr>"

definition failing_driver :: "string \<Rightarrow> (unit, nat, string list, string) driver" where
  "failing_driver name =
     (stub_driver name)
       \<lparr>IsInitialized := (\<lambda>cfg e. ((False, Some (ErrText ''permission denied'')), e)),
        Reset := (\<lambda>rebootstrap cleanup e. (Some (ErrText ''reset failed''), e))\<rparr>"

definition sticky_driver :: "string \<Rightarrow> (unit, nat, string list, string) driver" where
  "sticky_driver name =
     (stub_driver name)
       \<lparr>Reset := (\<lambda>rebootstrap cleanup e.
                    (None, e\<lparr>files := (files e)(''/data/db/reset-flag'' := Held ''directory not empty'')\<rparr>))\<rparr>"

definition demo_externs ::
  "(unit, nat, string list, string) driver list \<Rightarrow> (unit, nat, string list, string) externs" where
  "demo_externs registry =
     \<lparr>version_Program = ''k3s'',
      etcd_ResetFile = (\<lambda>cfg. DataDir cfg @ ''/db/reset-flag''),
      filepath_Join = join_slash,
      storageBootstrap = (\<lambda>c e. (None, e)),
      managed_Registered = registry,
      managed_Default = ''etcd''\<rparr>"

definition demo_config :: "unit config_Control" where
  "demo_config =
     \<lparr>DataDir = ''/data'',
      Datastore = \<lparr>Endpoint = '''', OtherFields = Some ()\<rparr>,
      ClusterInit = False, ClusterReset = False, Token = '''', JoinURL = ''''\<rparr>"

definition demo_cluster ::
  "unit config_Control \<Rightarrow> (unit, nat, string list, string) driver option
     \<Rightarrow> (unit, nat, string list, string) Cluster" where
  "demo_cluster cfg db = \<lparr>config = cfg, managedDB = db, clientAccessInfo = ''admin''\<rparr>"

definition no_files :: "string \<Rightarrow> fstate" where
  "no_files p = Missing"

definition demo_world :: "(string \<Rightarrow> fstate) \<Rightarrow> nat world" where
  "demo_world fs = \<lparr>env = \<lparr>files = fs, dstate = 0\<rparr>, calls = []\<rparr>"

text \<open>The waits in which the timer fires, but for wait \<open>n\<close>, which is cancelled.\<close>

definition cancel_at :: "nat \<Rightarrow> nat \<Rightarrow> wait_outcome" where
  "cancel_at n k = (if k = n then Cancelled else TimerFired)"

section \<open>Helper facts\<close>

lemma world_eq: "(w::'d world)\<lparr>env := e, calls := cs\<rparr> = \<lparr>env = e, calls = cs\<rparr>"
  by (cases w) simp


lemma os_Stat_Missing: "files e p = Missing \<Longrightarrow> os_Stat p e = Some (ErrNotExist ''stat'' p)"
  by (simp add: os_Stat_def)

lemma os_Stat_after_Remove:
  "remove_done (fst (os_Remove p e)) \<Longrightarrow>
     os_Stat p (snd (os_Remove p e)) = Some (ErrNotExist ''stat'' p)"
  by (cases "files e p") (simp_all add: os_Stat_def os_Remove_def remove_done_def)

lemma start_db_eq:
  "start_db c db rf w =
     (fst (Start db (clientAccessInfo c) (snd (os_Remove rf (env w)))),
      \<lparr>env = snd (Start db (clientAccessInfo c) (snd (os_Remove rf (env w)))),
       calls = calls w @ [Os_Remove rf, Call_Start (EndpointName db)]\<rparr>)"
  by (simp add: start_db_def emit_def Let_def split: prod.splits)

lemma remove_each_no_files: "files e = no_files \<Longrightarrow> remove_each ps e = e"
  by (induction ps arbitrary: e) (simp_all add: os_Remove_def no_files_def)

section \<open>The lifecycle coordinator\<close>



text \<open>The other ways out of \<open>start\<close>: no driver, a stat that fails, a reset that fails.\<close>

lemma start_no_driver: "managedDB c = None \<Longrightarrow> start X c w = (None, w)"
  by (simp add: start_def)

lemma start_stat_error:
  assumes "managedDB c = Some db" and "ClusterReset (config c)"
    and "files (env w) (etcd_ResetFile X (config c)) = Broken s"
  shows "start X c w =
           (Some (ErrSys ''stat'' (etcd_ResetFile X (config c)) s),
            \<lparr>env = env w, calls = calls w @ [Os_Stat (etcd_ResetFile X (config c))]\<rparr>)"
  using assms by (simp add: start_def emit_def os_Stat_def Let_def)

lemma start_reset_error:
  assumes "managedDB c = Some db" and "ClusterReset (config c)"
    and "files (env w) (etcd_ResetFile X (config c)) = Missing"
    and "Reset db (storageBootstrap X c) (cleanCerts X c) (env w) = (Some err, e2)"
  shows "start X c w =
           (Some err,
            \<lparr>env = e2,
             calls = calls w @ [Os_Stat (etcd_ResetFile X (config c)),
                                Call_Reset (EndpointName db)]\<rparr>)"
  using assms by (simp add: start_def emit_def os_Stat_Missing Let_def)

text \<open>
  C3, as the code has it. On the reset success path, a driver bound, cluster-reset
  requested, the reset file absent and \<open>Reset\<close> returning no error, the calls of \<open>start\<close>
  are, in this order, the stat of the reset file, \<open>Reset\<close> once, \<open>os.Remove\<close> on the reset
  file and \<open>Start\<close> once; \<open>Start\<close> runs in the environment the removal left, and \<open>start\<close>
  returns its result. Where the removal has returned no error or "does not exist", a
  stat of the reset file in that environment fails with "not exist".
\<close>

theorem start_reset_marker_absent:
  assumes "managedDB c = Some db" and "ClusterReset (config c)"
    and "files (env w) (etcd_ResetFile X (config c)) = Missing"
    and "fst (Reset db (storageBootstrap X c) (cleanCerts X c) (env w)) = None"
  shows "let rf = etcd_ResetFile X (config c);
             e2 = snd (Reset db (storageBootstrap X c) (cleanCerts X c) (env w));
             e3 = snd (os_Remove rf e2)
         in (remove_done (fst (os_Remove rf e2)) \<longrightarrow>
               os_Stat rf e3 = Some (ErrNotExist ''stat'' rf)) \<and>
            start X c w =
              (fst (Start db (clientAccessInfo c) e3),
               \<lparr>env = snd (Start db (clientAccessInfo c) e3),
                calls = calls w @ [Os_Stat rf, Call_Reset (EndpointName db),
                                   Os_Remove rf, Call_Start (EndpointName db)]\<rparr>)"
proof -
  obtain e2 where r: "Reset db (storageBootstrap X c) (cleanCerts X c) (env w) = (None, e2)"
    using assms(4) by (cases "Reset db (storageBootstrap X c) (cleanCerts X c) (env w)") simp
  show ?thesis
    using assms(1-3) r
    by (simp add: start_def emit_def os_Stat_Missing Let_def start_db_eq os_Stat_after_Remove)
qed

theorem start_reset_marker_absent_witness:
  "fst (start (demo_externs [stub_driver ''etcd''])
          (demo_cluster (demo_config\<lparr>ClusterReset := True\<rparr>) (Some (stub_driver ''etcd'')))
          (demo_world no_files)) = None
   \<and> calls (snd (start (demo_externs [stub_driver ''etcd''])
          (demo_cluster (demo_config\<lparr>ClusterReset := True\<rparr>) (Some (stub_driver ''etcd'')))
          (demo_world no_files)))
       = [Os_Stat ''/data/db/reset-flag'', Call_Reset ''etcd'',
          Os_Remove ''/data/db/reset-flag'', Call_Start ''etcd'']
   \<and> os_Stat ''/data/db/reset-flag''
        (env (snd (start (demo_externs [stub_driver ''etcd''])
          (demo_cluster (demo_config\<lparr>ClusterReset := True\<rparr>) (Some (stub_driver ''etcd'')))
          (demo_world no_files))))
       = Some (ErrNotExist ''stat'' ''/data/db/reset-flag'')"
  using start_reset_marker_absent
    [of "demo_cluster (demo_config\<lparr>ClusterReset := True\<rparr>) (Some (stub_driver ''etcd''))"
        "stub_driver ''etcd''"
        "demo_world no_files"
        "demo_externs [stub_driver ''etcd'']"]
  by (simp add: demo_cluster_def demo_config_def demo_world_def demo_externs_def
      stub_driver_def cleanCerts_def remove_each_no_files os_Remove_def os_Stat_def
      remove_done_def Let_def no_files_def[of "''/data/db/reset-flag''"])

text \<open>
  The claim C3 as the spec words it fails on the success path itself: \<open>Reset\<close> returns no
  error and leaves a reset file that cannot be removed. \<open>os.Remove\<close> fails, line 125 drops
  its error, \<open>Start\<close> is called, and a stat of the reset file succeeds, in the environment
  \<open>Start\<close> is called in and after it.
\<close>

theorem start_reset_sticky_marker_counterexample:
  "managedDB (demo_cluster (demo_config\<lparr>ClusterReset := True\<rparr>) (Some (sticky_driver ''etcd'')))
     = Some (sticky_driver ''etcd'')
   \<and> ClusterReset (config (demo_cluster (demo_config\<lparr>ClusterReset := True\<rparr>) (Some (sticky_driver ''etcd''))))
   \<and> os_Stat ''/data/db/reset-flag'' (env (demo_world no_files))
       = Some (ErrNotExist ''stat'' ''/data/db/reset-flag'')
   \<and> fst (Reset (sticky_driver ''etcd'')
            (storageBootstrap (demo_externs [sticky_driver ''etcd''])
               (demo_cluster (demo_config\<lparr>ClusterReset := True\<rparr>) (Some (sticky_driver ''etcd''))))
            (cleanCerts (demo_externs [sticky_driver ''etcd''])
               (demo_cluster (demo_config\<lparr>ClusterReset := True\<rparr>) (Some (sticky_driver ''etcd''))))
            (env (demo_world no_files))) = None
   \<and> os_Stat ''/data/db/reset-flag''
        (snd (os_Remove ''/data/db/reset-flag''
           (snd (Reset (sticky_driver ''etcd'')
            (storageBootstrap (demo_externs [sticky_driver ''etcd''])
               (demo_cluster (demo_config\<lparr>ClusterReset := True\<rparr>) (Some (sticky_driver ''etcd''))))
            (cleanCerts (demo_externs [sticky_driver ''etcd''])
               (demo_cluster (demo_config\<lparr>ClusterReset := True\<rparr>) (Some (sticky_driver ''etcd''))))
            (env (demo_world no_files)))))) = None
   \<and> fst (start (demo_externs [sticky_driver ''etcd''])
          (demo_cluster (demo_config\<lparr>ClusterReset := True\<rparr>) (Some (sticky_driver ''etcd'')))
          (demo_world no_files)) = None
   \<and> calls (snd (start (demo_externs [sticky_driver ''etcd''])
          (demo_cluster (demo_config\<lparr>ClusterReset := True\<rparr>) (Some (sticky_driver ''etcd'')))
          (demo_world no_files)))
       = [Os_Stat ''/data/db/reset-flag'', Call_Reset ''etcd'',
          Os_Remove ''/data/db/reset-flag'', Call_Start ''etcd'']
   \<and> os_Stat ''/data/db/reset-flag''
        (env (snd (start (demo_externs [sticky_driver ''etcd''])
          (demo_cluster (demo_config\<lparr>ClusterReset := True\<rparr>) (Some (sticky_driver ''etcd'')))
          (demo_world no_files)))) = None"
  by (simp add: start_def start_db_def demo_cluster_def demo_config_def demo_world_def
      demo_externs_def sticky_driver_def stub_driver_def emit_def os_Stat_def os_Remove_def
      no_files_def Let_def)

text \<open>
  C9, as the code has it. With a driver bound and cluster-reset not requested, \<open>start\<close>
  makes two calls, \<open>os.Remove\<close> on the reset file and then the driver's \<open>Start\<close>, which
  runs in the environment the removal left. Where the removal has returned no error or
  "does not exist", as it does for a reset file that is present and can be removed, a
  stat of the reset file in that environment fails with "not exist".
\<close>

theorem start_without_reset_remove_then_start:
  assumes "managedDB c = Some db" and "\<not> ClusterReset (config c)"
  shows "let rf = etcd_ResetFile X (config c); e1 = snd (os_Remove rf (env w)) in
           (remove_done (fst (os_Remove rf (env w))) \<longrightarrow>
              os_Stat rf e1 = Some (ErrNotExist ''stat'' rf)) \<and>
           (files (env w) rf = Exists \<longrightarrow> remove_done (fst (os_Remove rf (env w)))) \<and>
           start X c w =
             (fst (Start db (clientAccessInfo c) e1),
              \<lparr>env = snd (Start db (clientAccessInfo c) e1),
               calls = calls w @ [Os_Remove rf, Call_Start (EndpointName db)]\<rparr>)"
  using assms
  by (simp add: start_def Let_def start_db_eq os_Stat_after_Remove)
     (simp add: os_Remove_def remove_done_def)

theorem start_without_reset_remove_then_start_witness:
  "os_Stat ''/data/db/reset-flag'' (env (demo_world (no_files(''/data/db/reset-flag'' := Exists)))) = None
   \<and> fst (start (demo_externs [stub_driver ''etcd''])
          (demo_cluster demo_config (Some (stub_driver ''etcd'')))
          (demo_world (no_files(''/data/db/reset-flag'' := Exists)))) = None
   \<and> calls (snd (start (demo_externs [stub_driver ''etcd''])
          (demo_cluster demo_config (Some (stub_driver ''etcd'')))
          (demo_world (no_files(''/data/db/reset-flag'' := Exists)))))
       = [Os_Remove ''/data/db/reset-flag'', Call_Start ''etcd'']
   \<and> os_Stat ''/data/db/reset-flag''
        (env (snd (start (demo_externs [stub_driver ''etcd''])
          (demo_cluster demo_config (Some (stub_driver ''etcd'')))
          (demo_world (no_files(''/data/db/reset-flag'' := Exists))))))
       = Some (ErrNotExist ''stat'' ''/data/db/reset-flag'')"
  using start_without_reset_remove_then_start
    [of "demo_cluster demo_config (Some (stub_driver ''etcd''))"
        "stub_driver ''etcd''"
        "demo_externs [stub_driver ''etcd'']"
        "demo_world (no_files(''/data/db/reset-flag'' := Exists))"]
  by (simp add: demo_cluster_def demo_config_def demo_world_def demo_externs_def
      stub_driver_def os_Remove_def os_Stat_def remove_done_def Let_def)

text \<open>
  The claim C9 as it is worded fails for a reset file that is present and cannot be
  removed: \<open>os.Remove\<close> fails, its error is dropped, and \<open>Start\<close> is called with the reset
  file still there.
\<close>

theorem start_without_reset_held_marker_counterexample:
  "managedDB (demo_cluster demo_config (Some (stub_driver ''etcd''))) = Some (stub_driver ''etcd'')
   \<and> \<not> ClusterReset (config (demo_cluster demo_config (Some (stub_driver ''etcd''))))
   \<and> os_Stat ''/data/db/reset-flag''
        (env (demo_world (no_files(''/data/db/reset-flag'' := Held ''operation not permitted'')))) = None
   \<and> os_Stat ''/data/db/reset-flag''
        (snd (os_Remove ''/data/db/reset-flag''
           (env (demo_world (no_files(''/data/db/reset-flag'' := Held ''operation not permitted'')))))) = None
   \<and> fst (start (demo_externs [stub_driver ''etcd''])
          (demo_cluster demo_config (Some (stub_driver ''etcd'')))
          (demo_world (no_files(''/data/db/reset-flag'' := Held ''operation not permitted'')))) = None
   \<and> calls (snd (start (demo_externs [stub_driver ''etcd''])
          (demo_cluster demo_config (Some (stub_driver ''etcd'')))
          (demo_world (no_files(''/data/db/reset-flag'' := Held ''operation not permitted'')))))
       = [Os_Remove ''/data/db/reset-flag'', Call_Start ''etcd'']
   \<and> os_Stat ''/data/db/reset-flag''
        (env (snd (start (demo_externs [stub_driver ''etcd''])
          (demo_cluster demo_config (Some (stub_driver ''etcd'')))
          (demo_world (no_files(''/data/db/reset-flag'' := Held ''operation not permitted''))))))
       = None"
  by (simp add: start_def start_db_def demo_cluster_def demo_config_def demo_world_def
      demo_externs_def stub_driver_def emit_def os_Stat_def os_Remove_def Let_def)

section \<open>The driver resolver\<close>

lemma SplitN2_first: "strings_SplitN2 s sep ! 0 = takeWhile (\<lambda>ch. ch \<noteq> sep) s"
proof (cases "sep \<in> set s")
  case True
  then show ?thesis by (simp add: strings_SplitN2_def)
next
  case False
  then have t: "takeWhile (\<lambda>ch. ch \<noteq> sep) s = s"
    by (induction s) auto
  show ?thesis using False by (simp add: strings_SplitN2_def t)
qed

lemma assign_initialized_none:
  "none_initialized ds (config c) (env w) \<Longrightarrow>
     assign_initialized ds c w =
       (Fallthrough, \<lparr>env = after_probes ds (config c) (env w), calls = calls w @ probes ds\<rparr>)"
proof (induction ds arbitrary: w)
  case Nil
  then show ?case by (simp add: probes_def)
next
  case (Cons d ds)
  obtain r e1 where p: "IsInitialized d (config c) (env w) = (r, e1)"
    by (cases "IsInitialized d (config c) (env w)")
  with Cons.prems have r: "r = (False, None)" and rest: "none_initialized ds (config c) e1"
    by simp_all
  let ?w1 = "emit (Call_IsInitialized (EndpointName d)) (w\<lparr>env := e1\<rparr>)"
  have "none_initialized ds (config c) (env ?w1)"
    using rest by (simp add: emit_def)
  from Cons.IH[OF this] p r show ?case
    by (simp add: emit_def probes_def)
qed

lemma assign_initialized_append:
  "none_initialized pre (config c) (env w) \<Longrightarrow>
     assign_initialized (pre @ rest) c w =
       assign_initialized rest c
         \<lparr>env = after_probes pre (config c) (env w), calls = calls w @ probes pre\<rparr>"
proof (induction pre arbitrary: w)
  case Nil
  then show ?case by (cases w) (simp add: probes_def)
next
  case (Cons d ds)
  obtain r e1 where p: "IsInitialized d (config c) (env w) = (r, e1)"
    by (cases "IsInitialized d (config c) (env w)")
  with Cons.prems have r: "r = (False, None)" and rest: "none_initialized ds (config c) e1"
    by simp_all
  let ?w1 = "emit (Call_IsInitialized (EndpointName d)) (w\<lparr>env := e1\<rparr>)"
  have "none_initialized ds (config c) (env ?w1)"
    using rest by (simp add: emit_def)
  from Cons.IH[OF this] p r show ?case
    by (simp add: emit_def probes_def)
qed

lemma assign_initialized_found:
  assumes "none_initialized pre (config c) (env w)"
    and "fst (IsInitialized db (config c) (after_probes pre (config c) (env w))) = (True, None)"
  shows "assign_initialized (pre @ db # post) c w =
           (Returned (None, c\<lparr>managedDB := Some db\<rparr>),
            \<lparr>env = snd (IsInitialized db (config c) (after_probes pre (config c) (env w))),
             calls = calls w @ probes (pre @ [db])\<rparr>)"
proof -
  obtain ok e e1 where p:
    "IsInitialized db (config c) (after_probes pre (config c) (env w)) = ((ok, e), e1)"
    by (metis surj_pair)
  with assms(2) show ?thesis
    by (simp add: assign_initialized_append[OF assms(1)] emit_def probes_def)
qed

lemma assign_initialized_error:
  assumes "none_initialized pre (config c) (env w)"
    and "snd (fst (IsInitialized db (config c) (after_probes pre (config c) (env w)))) = Some err"
  shows "assign_initialized (pre @ db # post) c w =
           (Returned (Some err, c),
            \<lparr>env = snd (IsInitialized db (config c) (after_probes pre (config c) (env w))),
             calls = calls w @ probes (pre @ [db])\<rparr>)"
proof -
  obtain ok e e1 where p:
    "IsInitialized db (config c) (after_probes pre (config c) (env w)) = ((ok, e), e1)"
    by (metis surj_pair)
  with assms(2) show ?thesis
    by (simp add: assign_initialized_append[OF assms(1)] emit_def probes_def)
qed

lemma assign_by_name_none:
  "\<forall>d \<in> set ds. EndpointName d \<noteq> name \<Longrightarrow> assign_by_name ds name c = Fallthrough"
  by (induction ds) auto

lemma assign_by_name_first:
  "\<forall>d \<in> set pre. EndpointName d \<noteq> name \<Longrightarrow> EndpointName db = name \<Longrightarrow>
     assign_by_name (pre @ db # post) name c = Returned (None, c\<lparr>managedDB := Some db\<rparr>)"
  by (induction pre) auto

lemma assign_default_none:
  "\<forall>d \<in> set ds. EndpointName d \<noteq> dflt \<Longrightarrow> assign_default ds dflt c = Fallthrough"
  by (induction ds) auto

lemma assign_default_first:
  "\<forall>d \<in> set pre. EndpointName d \<noteq> dflt \<Longrightarrow> EndpointName db = dflt \<Longrightarrow>
     assign_default (pre @ db # post) dflt c = Returned (None, c\<lparr>managedDB := Some db\<rparr>)"
  by (induction pre) auto

lemma assignManagedDriver_none_initialized:
  assumes "none_initialized (managed_Registered X) (config c) (env w)"
  shows "assignManagedDriver X c w =
           (case assign_by_name (managed_Registered X) (endpoint_type (config c)) c of
              Returned r \<Rightarrow>
                (r, \<lparr>env = after_probes (managed_Registered X) (config c) (env w),
                     calls = calls w @ probes (managed_Registered X)\<rparr>)
            | Fallthrough \<Rightarrow>
                (if bootstrap_requested (config c)
                 then (case assign_default (managed_Registered X) (managed_Default X) c of
                         Returned r \<Rightarrow> r
                       | Fallthrough \<Rightarrow> (None, c))
                 else (None, c),
                 \<lparr>env = after_probes (managed_Registered X) (config c) (env w),
                  calls = calls w @ probes (managed_Registered X)\<rparr>))"
  by (auto simp add: assignManagedDriver_def assign_initialized_none[OF assms] SplitN2_first
      endpoint_type_def bootstrap_requested_def split: flow.splits)

text \<open>
  C4. Let the registry be \<open>pre @ db # post\<close>. If, probed in registration order, the
  drivers of \<open>pre\<close> report "not initialized" and \<open>db\<close> then reports "initialized", the
  resolver binds \<open>db\<close>, and the probes of \<open>pre\<close> and of \<open>db\<close> are all the calls it has
  made: no driver of \<open>post\<close> is probed. If no driver of the whole registry reports
  "initialized", and \<open>db\<close> is the first driver whose \<open>EndpointName\<close> equals the configured
  endpoint up to its first colon, the resolver binds \<open>db\<close>.
\<close>

theorem resolver_precedence:
  assumes reg: "managed_Registered X = pre @ db # post"
  shows "(none_initialized pre (config c) (env w) \<and>
          fst (IsInitialized db (config c) (after_probes pre (config c) (env w))) = (True, None)
          \<longrightarrow> assignManagedDriver X c w =
                ((None, c\<lparr>managedDB := Some db\<rparr>),
                 \<lparr>env = snd (IsInitialized db (config c) (after_probes pre (config c) (env w))),
                  calls = calls w @ probes (pre @ [db])\<rparr>))
       \<and> (none_initialized (managed_Registered X) (config c) (env w) \<and>
          (\<forall>d \<in> set pre. EndpointName d \<noteq> endpoint_type (config c)) \<and>
          EndpointName db = endpoint_type (config c)
          \<longrightarrow> assignManagedDriver X c w =
                ((None, c\<lparr>managedDB := Some db\<rparr>),
                 \<lparr>env = after_probes (managed_Registered X) (config c) (env w),
                  calls = calls w @ probes (managed_Registered X)\<rparr>))"
proof (intro conjI impI)
  assume "none_initialized pre (config c) (env w) \<and>
          fst (IsInitialized db (config c) (after_probes pre (config c) (env w))) = (True, None)"
  then show "assignManagedDriver X c w =
                ((None, c\<lparr>managedDB := Some db\<rparr>),
                 \<lparr>env = snd (IsInitialized db (config c) (after_probes pre (config c) (env w))),
                  calls = calls w @ probes (pre @ [db])\<rparr>)"
    by (simp add: assignManagedDriver_def reg assign_initialized_found)
next
  assume a: "none_initialized (managed_Registered X) (config c) (env w) \<and>
          (\<forall>d \<in> set pre. EndpointName d \<noteq> endpoint_type (config c)) \<and>
          EndpointName db = endpoint_type (config c)"
  then have "assign_by_name (managed_Registered X) (endpoint_type (config c)) c
               = Returned (None, c\<lparr>managedDB := Some db\<rparr>)"
    unfolding reg by (intro assign_by_name_first) auto
  moreover from a have "none_initialized (managed_Registered X) (config c) (env w)" by simp
  ultimately show "assignManagedDriver X c w =
                ((None, c\<lparr>managedDB := Some db\<rparr>),
                 \<lparr>env = after_probes (managed_Registered X) (config c) (env w),
                  calls = calls w @ probes (managed_Registered X)\<rparr>)"
    by (simp add: assignManagedDriver_none_initialized)
qed

theorem resolver_precedence_witness:
  "assignManagedDriver
     (demo_externs [stub_driver ''sqlite'', stub_driver ''etcd'', stub_driver ''dqlite''])
     (demo_cluster demo_config None)
     (demo_world (no_files(''/data/db/etcd'' := Exists)))
   = ((None, (demo_cluster demo_config None)\<lparr>managedDB := Some (stub_driver ''etcd'')\<rparr>),
      \<lparr>env = \<lparr>files = no_files(''/data/db/etcd'' := Exists), dstate = 0\<rparr>,
       calls = [Call_IsInitialized ''sqlite'', Call_IsInitialized ''etcd'']\<rparr>)
   \<and> assignManagedDriver
     (demo_externs [stub_driver ''sqlite'', stub_driver ''etcd'', stub_driver ''dqlite''])
     (demo_cluster (demo_config\<lparr>Datastore := \<lparr>Endpoint = ''etcd://10.0.0.1:2379'', OtherFields = None\<rparr>\<rparr>) None)
     (demo_world no_files)
   = ((None, (demo_cluster (demo_config\<lparr>Datastore := \<lparr>Endpoint = ''etcd://10.0.0.1:2379'', OtherFields = None\<rparr>\<rparr>) None)
               \<lparr>managedDB := Some (stub_driver ''etcd'')\<rparr>),
      \<lparr>env = \<lparr>files = no_files, dstate = 0\<rparr>,
       calls = [Call_IsInitialized ''sqlite'', Call_IsInitialized ''etcd'',
                Call_IsInitialized ''dqlite'']\<rparr>)"
  using resolver_precedence
    [of "demo_externs [stub_driver ''sqlite'', stub_driver ''etcd'', stub_driver ''dqlite'']"
        "[stub_driver ''sqlite'']" "stub_driver ''etcd''" "[stub_driver ''dqlite'']"
        "demo_cluster demo_config None"
        "demo_world (no_files(''/data/db/etcd'' := Exists))"]
    resolver_precedence
    [of "demo_externs [stub_driver ''sqlite'', stub_driver ''etcd'', stub_driver ''dqlite'']"
        "[stub_driver ''sqlite'']" "stub_driver ''etcd''" "[stub_driver ''dqlite'']"
        "demo_cluster (demo_config\<lparr>Datastore := \<lparr>Endpoint = ''etcd://10.0.0.1:2379'', OtherFields = None\<rparr>\<rparr>) None"
        "demo_world no_files"]
  by (simp add: demo_cluster_def demo_config_def demo_world_def demo_externs_def
      stub_driver_def no_files_def probes_def endpoint_type_def)

text \<open>
  C5. Let the registry be \<open>pre @ db # post\<close>. If the drivers of \<open>pre\<close> report "not
  initialized" and the probe of \<open>db\<close> then returns an error, the resolver returns that
  error and leaves the cluster as it was, so a \<open>managedDB\<close> that was nil is nil still,
  whatever the drivers of \<open>post\<close>, the endpoint and the default are; \<open>post\<close> is not probed.
\<close>

theorem resolver_fail_fast:
  assumes "managed_Registered X = pre @ db # post"
    and "none_initialized pre (config c) (env w)"
    and "snd (fst (IsInitialized db (config c) (after_probes pre (config c) (env w)))) = Some err"
  shows "assignManagedDriver X c w =
           ((Some err, c),
            \<lparr>env = snd (IsInitialized db (config c) (after_probes pre (config c) (env w))),
             calls = calls w @ probes (pre @ [db])\<rparr>)"
  using assms by (simp add: assignManagedDriver_def assign_initialized_error)

theorem resolver_fail_fast_witness:
  "assignManagedDriver
     (demo_externs [stub_driver ''sqlite'', failing_driver ''dqlite'', stub_driver ''etcd''])
     (demo_cluster (demo_config\<lparr>ClusterInit := True\<rparr>) None)
     (demo_world (no_files(''/data/db/etcd'' := Exists)))
   = ((Some (ErrText ''permission denied''), demo_cluster (demo_config\<lparr>ClusterInit := True\<rparr>) None),
      \<lparr>env = \<lparr>files = no_files(''/data/db/etcd'' := Exists), dstate = 0\<rparr>,
       calls = [Call_IsInitialized ''sqlite'', Call_IsInitialized ''dqlite'']\<rparr>)
   \<and> managedDB (demo_cluster (demo_config\<lparr>ClusterInit := True\<rparr>) None) = None"
  using resolver_fail_fast
    [of "demo_externs [stub_driver ''sqlite'', failing_driver ''dqlite'', stub_driver ''etcd'']"
        "[stub_driver ''sqlite'']" "failing_driver ''dqlite''" "[stub_driver ''etcd'']"
        "demo_cluster (demo_config\<lparr>ClusterInit := True\<rparr>) None"
        "demo_world (no_files(''/data/db/etcd'' := Exists))"
        "ErrText ''permission denied''"]
  by (simp add: demo_cluster_def demo_config_def demo_world_def demo_externs_def
      stub_driver_def failing_driver_def no_files_def probes_def)

text \<open>
  C6. Let no driver report "initialized" and no driver's \<open>EndpointName\<close> equal the
  configured endpoint up to its first colon. If the endpoint is empty and cluster-init is
  requested or a token and a join URL are both supplied, the resolver binds the default
  driver: the first registered driver \<open>db\<close> whose \<open>EndpointName\<close> is \<open>managed.Default()\<close>.
  Otherwise it returns no error and leaves the cluster as it was, with no driver bound.
  It does the same where no registered driver bears the default's name.
\<close>

theorem resolver_default:
  assumes none: "none_initialized (managed_Registered X) (config c) (env w)"
    and nomatch: "\<forall>d \<in> set (managed_Registered X). EndpointName d \<noteq> endpoint_type (config c)"
  shows "(bootstrap_requested (config c) \<and> managed_Registered X = pre @ db # post \<and>
          (\<forall>d \<in> set pre. EndpointName d \<noteq> managed_Default X) \<and> EndpointName db = managed_Default X
          \<longrightarrow> assignManagedDriver X c w =
                ((None, c\<lparr>managedDB := Some db\<rparr>),
                 \<lparr>env = after_probes (managed_Registered X) (config c) (env w),
                  calls = calls w @ probes (managed_Registered X)\<rparr>))
       \<and> (\<not> bootstrap_requested (config c)
          \<longrightarrow> assignManagedDriver X c w =
                ((None, c),
                 \<lparr>env = after_probes (managed_Registered X) (config c) (env w),
                  calls = calls w @ probes (managed_Registered X)\<rparr>))
       \<and> (bootstrap_requested (config c) \<and>
          (\<forall>d \<in> set (managed_Registered X). EndpointName d \<noteq> managed_Default X)
          \<longrightarrow> assignManagedDriver X c w =
                ((None, c),
                 \<lparr>env = after_probes (managed_Registered X) (config c) (env w),
                  calls = calls w @ probes (managed_Registered X)\<rparr>))"
proof -
  have byname: "assign_by_name (managed_Registered X) (endpoint_type (config c)) c = Fallthrough"
    using nomatch by (rule assign_by_name_none)
  show ?thesis
  proof (intro conjI impI)
    assume a: "bootstrap_requested (config c) \<and> managed_Registered X = pre @ db # post \<and>
          (\<forall>d \<in> set pre. EndpointName d \<noteq> managed_Default X) \<and> EndpointName db = managed_Default X"
    then have "assign_default (pre @ db # post) (managed_Default X) c
                 = Returned (None, c\<lparr>managedDB := Some db\<rparr>)"
      by (intro assign_default_first) auto
    with a have dflt: "assign_default (managed_Registered X) (managed_Default X) c
                 = Returned (None, c\<lparr>managedDB := Some db\<rparr>)"
      by simp
    from a have b: "bootstrap_requested (config c)" by simp
    show "assignManagedDriver X c w =
                ((None, c\<lparr>managedDB := Some db\<rparr>),
                 \<lparr>env = after_probes (managed_Registered X) (config c) (env w),
                  calls = calls w @ probes (managed_Registered X)\<rparr>)"
      by (simp add: assignManagedDriver_none_initialized[OF none] byname dflt b)
  next
    assume b: "\<not> bootstrap_requested (config c)"
    show "assignManagedDriver X c w =
                ((None, c),
                 \<lparr>env = after_probes (managed_Registered X) (config c) (env w),
                  calls = calls w @ probes (managed_Registered X)\<rparr>)"
      by (simp add: assignManagedDriver_none_initialized[OF none] byname b)
  next
    assume a: "bootstrap_requested (config c) \<and>
          (\<forall>d \<in> set (managed_Registered X). EndpointName d \<noteq> managed_Default X)"
    then have dflt: "assign_default (managed_Registered X) (managed_Default X) c = Fallthrough"
      by (intro assign_default_none) simp
    from a have b: "bootstrap_requested (config c)" by simp
    show "assignManagedDriver X c w =
                ((None, c),
                 \<lparr>env = after_probes (managed_Registered X) (config c) (env w),
                  calls = calls w @ probes (managed_Registered X)\<rparr>)"
      by (simp add: assignManagedDriver_none_initialized[OF none] byname dflt b)
  qed
qed

theorem resolver_default_witness:
  "assignManagedDriver
     (demo_externs [stub_driver ''sqlite'', stub_driver ''etcd''])
     (demo_cluster (demo_config\<lparr>Token := ''secret'', JoinURL := ''https://10.0.0.1:6443''\<rparr>) None)
     (demo_world no_files)
   = ((None, (demo_cluster (demo_config\<lparr>Token := ''secret'', JoinURL := ''https://10.0.0.1:6443''\<rparr>) None)
               \<lparr>managedDB := Some (stub_driver ''etcd'')\<rparr>),
      \<lparr>env = \<lparr>files = no_files, dstate = 0\<rparr>,
       calls = [Call_IsInitialized ''sqlite'', Call_IsInitialized ''etcd'']\<rparr>)
   \<and> assignManagedDriver
     (demo_externs [stub_driver ''sqlite'', stub_driver ''etcd''])
     (demo_cluster (demo_config\<lparr>Token := ''secret''\<rparr>) None)
     (demo_world no_files)
   = ((None, demo_cluster (demo_config\<lparr>Token := ''secret''\<rparr>) None),
      \<lparr>env = \<lparr>files = no_files, dstate = 0\<rparr>,
       calls = [Call_IsInitialized ''sqlite'', Call_IsInitialized ''etcd'']\<rparr>)"
  using resolver_default
    [of "demo_externs [stub_driver ''sqlite'', stub_driver ''etcd'']"
        "demo_cluster (demo_config\<lparr>Token := ''secret'', JoinURL := ''https://10.0.0.1:6443''\<rparr>) None"
        "demo_world no_files"
        "[stub_driver ''sqlite'']" "stub_driver ''etcd''" "[]"]
    resolver_default
    [of "demo_externs [stub_driver ''sqlite'', stub_driver ''etcd'']"
        "demo_cluster (demo_config\<lparr>Token := ''secret''\<rparr>) None"
        "demo_world no_files"
        "[stub_driver ''sqlite'']" "stub_driver ''etcd''" "[]"]
  by (simp add: demo_cluster_def demo_config_def demo_world_def demo_externs_def
      stub_driver_def no_files_def probes_def endpoint_type_def bootstrap_requested_def)

section \<open>The readiness prober\<close>

lemma loop_cancelled:
  "tests_fail db (Suc n) (env w) \<Longrightarrow> (\<forall>j<n. sched (k + j) = TimerFired) \<Longrightarrow>
   sched (k + n) = Cancelled \<Longrightarrow>
     testClusterDB_loop db sched k w =
       Some \<lparr>env = after_tests db (Suc n) (env w),
             calls = calls w @ failed_rounds db sched k (Suc n) (env w)\<rparr>"
proof (induction n arbitrary: k w)
  case 0
  obtain err e1 where t: "Test db (env w) = (err, e1)" by (cases "Test db (env w)")
  with "0.prems" obtain e where e: "err = Some e" by auto
  show ?case using "0.prems"(3) t e
    by (subst testClusterDB_loop.simps) (simp add: emit_def)
next
  case (Suc n)
  obtain err e1 where t: "Test db (env w) = (err, e1)" by (cases "Test db (env w)")
  with Suc.prems(1) obtain e where e: "err = Some e" and rest: "tests_fail db (Suc n) e1"
    by auto
  have k0: "sched k = TimerFired" using Suc.prems(2)[rule_format, of 0] by simp
  let ?w3 = "\<lparr>env = e1, calls = calls w @ [Call_Test (EndpointName db),
           Logrus_Info (''Failed to test data store connection: '' @ Error_text e),
           Select TimerFired]\<rparr>"
  have a: "tests_fail db (Suc n) (env ?w3)" using rest by simp
  have b: "\<forall>j<n. sched (Suc k + j) = TimerFired"
    using Suc.prems(2) by (metis Suc_less_eq add_Suc_shift)
  have c: "sched (Suc k + n) = Cancelled" using Suc.prems(3) by simp
  have step: "testClusterDB_loop db sched k w = testClusterDB_loop db sched (Suc k) ?w3"
    using t e k0 by (subst testClusterDB_loop.simps) (simp add: emit_def world_eq)
  show ?case
    unfolding step using Suc.IH[OF a b c] t e k0 by simp
qed

lemma loop_ready:
  "tests_fail db n (env w) \<Longrightarrow> (\<forall>j<n. sched (k + j) = TimerFired) \<Longrightarrow>
   fst (Test db (after_tests db n (env w))) = None \<Longrightarrow>
     testClusterDB_loop db sched k w =
       Some \<lparr>env = after_tests db (Suc n) (env w),
             calls = calls w @ failed_rounds db sched k n (env w)
                     @ [Call_Test (EndpointName db),
                        Logrus_Info (EndpointName db @ '' data store connection OK'')]\<rparr>"
proof (induction n arbitrary: k w)
  case 0
  obtain err e1 where t: "Test db (env w) = (err, e1)" by (cases "Test db (env w)")
  with "0.prems" have e: "err = None" by auto
  show ?case using t e
    by (subst testClusterDB_loop.simps) (simp add: emit_def)
next
  case (Suc n)
  obtain err e1 where t: "Test db (env w) = (err, e1)" by (cases "Test db (env w)")
  with Suc.prems(1) obtain e where e: "err = Some e" and rest: "tests_fail db n e1"
    by auto
  have k0: "sched k = TimerFired" using Suc.prems(2)[rule_format, of 0] by simp
  let ?w3 = "\<lparr>env = e1, calls = calls w @ [Call_Test (EndpointName db),
           Logrus_Info (''Failed to test data store connection: '' @ Error_text e),
           Select TimerFired]\<rparr>"
  have a: "tests_fail db n (env ?w3)" using rest by simp
  have b: "\<forall>j<n. sched (Suc k + j) = TimerFired"
    using Suc.prems(2) by (metis Suc_less_eq add_Suc_shift)
  have c: "fst (Test db (after_tests db n (env ?w3))) = None" using Suc.prems(3) t by simp
  have step: "testClusterDB_loop db sched k w = testClusterDB_loop db sched (Suc k) ?w3"
    using t e k0 by (subst testClusterDB_loop.simps) (simp add: emit_def world_eq)
  show ?case
    unfolding step using Suc.IH[OF a b c] t e k0 by simp
qed

lemma loop_forever_aux:
  assumes "\<forall>e. fst (Test db e) \<noteq> None" and "\<forall>j. sched j = TimerFired"
    and run: "testClusterDB_loop db' sched' k w = Some w'"
  shows "db' = db \<longrightarrow> sched' = sched \<longrightarrow> False"
proof (rule testClusterDB_loop.raw_induct
    [where P = "\<lambda>d s i v y. d = db \<longrightarrow> s = sched \<longrightarrow> False", OF _ run], goal_cases)
  case (1 f d s i v y)
  show ?case
  proof (intro impI)
    assume eq: "d = db" "s = sched"
    obtain err e1 where t: "Test db (env v) = (err, e1)" by (cases "Test db (env v)")
    with assms(1)[rule_format, of "env v"] obtain e where e: "err = Some e" by auto
    have k0: "sched i = TimerFired" using assms(2) by simp
    from 1(2) eq t e k0 obtain w3 where "f db sched (Suc i) w3 = Some y"
      by (auto simp: Let_def)
    from 1(1)[OF this] show False by simp
  qed
qed

lemma loop_forever:
  assumes "\<forall>e. fst (Test db e) \<noteq> None" and "\<forall>j. sched j = TimerFired"
  shows "testClusterDB_loop db sched k w = None"
  using loop_forever_aux[OF assms, of db sched k w]
  by (cases "testClusterDB_loop db sched k w") auto

text \<open>
  C2, as the code has it. With a driver bound, let the first \<open>n + 1\<close> tests fail, the
  timer fire in the first \<open>n\<close> waits and wait \<open>n\<close> be cancelled. The method has returned
  an open channel and no error. The background task returns: it has made the \<open>n + 1\<close>
  failed rounds and nothing else, so no further \<open>Test\<close> and no "connection OK" line, and
  the deferred \<open>close(result)\<close> has closed the channel.
\<close>

theorem readiness_cancelled_closes_channel:
  assumes "managedDB c = Some db"
    and "tests_fail db (Suc n) (env w)"
    and "\<forall>j<n. sched j = TimerFired"
    and "sched n = Cancelled"
  shows "testClusterDB c = ((Open, None), Some db) \<and>
         testClusterDB_task db sched w =
           Some (Closed,
                 \<lparr>env = after_tests db (Suc n) (env w),
                  calls = calls w @ failed_rounds db sched 0 (Suc n) (env w)\<rparr>)"
proof -
  have "testClusterDB_loop db sched 0 w =
          Some \<lparr>env = after_tests db (Suc n) (env w),
                calls = calls w @ failed_rounds db sched 0 (Suc n) (env w)\<rparr>"
    using assms(2-4) by (intro loop_cancelled) simp_all
  with assms(1) show ?thesis
    by (simp add: testClusterDB_def testClusterDB_task_def)
qed

theorem readiness_cancelled_closes_channel_witness:
  "testClusterDB (demo_cluster demo_config (Some (stub_driver ''etcd'')))
     = ((Open, None), Some (stub_driver ''etcd''))
   \<and> testClusterDB_task (stub_driver ''etcd'') (cancel_at 1) (demo_world no_files)
     = Some (Closed,
             \<lparr>env = \<lparr>files = no_files, dstate = 2\<rparr>,
              calls = [Call_Test ''etcd'',
                       Logrus_Info ''Failed to test data store connection: connection refused'',
                       Select TimerFired,
                       Call_Test ''etcd'',
                       Logrus_Info ''Failed to test data store connection: connection refused'',
                       Select Cancelled]\<rparr>)"
  using readiness_cancelled_closes_channel
    [of "demo_cluster demo_config (Some (stub_driver ''etcd''))" "stub_driver ''etcd''"
        "Suc 0" "demo_world no_files" "cancel_at 1"]
  by (simp add: demo_cluster_def demo_world_def stub_driver_def cancel_at_def)

text \<open>
  The claim C2 as the spec words it fails: the first test fails, the first wait is
  cancelled, and the channel is closed when the task returns.
\<close>

theorem readiness_cancelled_counterexample:
  "managedDB (demo_cluster demo_config (Some (stub_driver ''etcd''))) = Some (stub_driver ''etcd'')
   \<and> fst (Test (stub_driver ''etcd'') (env (demo_world no_files))) = Some (ErrText ''connection refused'')
   \<and> cancel_at 0 0 = Cancelled
   \<and> testClusterDB_task (stub_driver ''etcd'') (cancel_at 0) (demo_world no_files)
     = Some (Closed,
             \<lparr>env = \<lparr>files = no_files, dstate = 1\<rparr>,
              calls = [Call_Test ''etcd'',
                       Logrus_Info ''Failed to test data store connection: connection refused'',
                       Select Cancelled]\<rparr>)"
proof -
  have "testClusterDB_loop (stub_driver ''etcd'') (cancel_at 0) 0 (demo_world no_files)
          = Some \<lparr>env = \<lparr>files = no_files, dstate = 1\<rparr>,
                  calls = [Call_Test ''etcd'',
                           Logrus_Info ''Failed to test data store connection: connection refused'',
                           Select Cancelled]\<rparr>"
    using loop_cancelled[of "stub_driver ''etcd''" 0 "demo_world no_files" "cancel_at 0" 0]
    by (simp add: demo_world_def stub_driver_def cancel_at_def)
  then show ?thesis
    by (simp add: testClusterDB_task_def demo_cluster_def demo_world_def stub_driver_def cancel_at_def)
qed

text \<open>
  C10. The error \<open>testClusterDB\<close> returns is nil, whatever the cluster. With no driver
  bound the channel it returns is closed already and no task is started. With a driver
  bound the channel is open and the task started; whenever that task returns, be it
  after a successful test or after a cancelled wait, the channel is closed.
\<close>

theorem testClusterDB_no_error_channel_closed:
  "snd (fst (testClusterDB c)) = None
   \<and> (managedDB c = None \<longrightarrow> testClusterDB c = ((Closed, None), None))
   \<and> (managedDB c = Some db \<longrightarrow>
        testClusterDB c = ((Open, None), Some db) \<and>
        (\<forall>sched w r. testClusterDB_task db sched w = Some r \<longrightarrow> fst r = Closed))"
  by (auto simp add: testClusterDB_def testClusterDB_task_def split: option.splits)

theorem testClusterDB_no_error_channel_closed_witness:
  "testClusterDB (demo_cluster demo_config None) = ((Closed, None), None)
   \<and> testClusterDB (demo_cluster demo_config (Some (stub_driver ''etcd'')))
       = ((Open, None), Some (stub_driver ''etcd''))
   \<and> testClusterDB_task (stub_driver ''etcd'') (cancel_at 5) (demo_world no_files)
       = Some (Closed,
             \<lparr>env = \<lparr>files = no_files, dstate = 3\<rparr>,
              calls = [Call_Test ''etcd'',
                       Logrus_Info ''Failed to test data store connection: connection refused'',
                       Select TimerFired,
                       Call_Test ''etcd'',
                       Logrus_Info ''Failed to test data store connection: connection refused'',
                       Select TimerFired,
                       Call_Test ''etcd'',
                       Logrus_Info ''etcd data store connection OK'']\<rparr>)
   \<and> map_option fst (testClusterDB_task (stub_driver ''etcd'') (cancel_at 5) (demo_world no_files))
       = Some Closed"
proof -
  have run: "testClusterDB_task (stub_driver ''etcd'') (cancel_at 5) (demo_world no_files)
       = Some (Closed,
             \<lparr>env = \<lparr>files = no_files, dstate = 3\<rparr>,
              calls = [Call_Test ''etcd'',
                       Logrus_Info ''Failed to test data store connection: connection refused'',
                       Select TimerFired,
                       Call_Test ''etcd'',
                       Logrus_Info ''Failed to test data store connection: connection refused'',
                       Select TimerFired,
                       Call_Test ''etcd'',
                       Logrus_Info ''etcd data store connection OK'']\<rparr>)"
  proof -
    have "testClusterDB_loop (stub_driver ''etcd'') (cancel_at 5) 0 (demo_world no_files)
       = Some \<lparr>env = \<lparr>files = no_files, dstate = 3\<rparr>,
              calls = [Call_Test ''etcd'',
                       Logrus_Info ''Failed to test data store connection: connection refused'',
                       Select TimerFired,
                       Call_Test ''etcd'',
                       Logrus_Info ''Failed to test data store connection: connection refused'',
                       Select TimerFired,
                       Call_Test ''etcd'',
                       Logrus_Info ''etcd data store connection OK'']\<rparr>"
      using loop_ready[of "stub_driver ''etcd''" "Suc (Suc 0)" "demo_world no_files" "cancel_at 5" 0]
      by (simp add: demo_world_def stub_driver_def cancel_at_def less_Suc_eq)
    then show ?thesis by (simp add: testClusterDB_task_def)
  qed
  show ?thesis
    using testClusterDB_no_error_channel_closed
            [of "demo_cluster demo_config None" "stub_driver ''etcd''"]
          testClusterDB_no_error_channel_closed
            [of "demo_cluster demo_config (Some (stub_driver ''etcd''))" "stub_driver ''etcd''"]
          run
    by (simp add: demo_cluster_def)
qed

section \<open>The route registrar\<close>

lemma strings_HasPrefix_iff: "strings_HasPrefix s p \<longleftrightarrow> (\<exists>rest. s = p @ rest)"
proof
  assume "strings_HasPrefix s p"
  then have "s = p @ drop (length p) s"
    by (metis strings_HasPrefix_def append_take_drop_id)
  then show "\<exists>rest. s = p @ rest" ..
next
  assume "\<exists>rest. s = p @ rest"
  then show "strings_HasPrefix s p" by (auto simp: strings_HasPrefix_def)
qed

text \<open>
  C8. With no driver bound, \<open>initClusterDB\<close> returns the handler it was given and no
  error, and changes nothing. With a driver bound whose name followed by \<open>://\<close> does not
  start the configured endpoint, the datastore configuration becomes the driver's
  endpoint name alone, every other field at its zero value, and \<open>Register\<close> is called
  once with that configuration and the handler; its handler and its error are what
  \<open>initClusterDB\<close> returns. Where the endpoint does start so, \<open>Register\<close> is called with
  the configuration as it was.
\<close>

theorem initClusterDB_registers:
  "(managedDB c = None \<longrightarrow> initClusterDB c handler w = ((handler, None), c, w))
   \<and> (managedDB c = Some db \<and>
        (\<nexists>rest. Endpoint (Datastore (config c)) = EndpointName db @ ''://'' @ rest) \<longrightarrow>
        initClusterDB c handler w =
          (fst (Register db
                  ((config c)\<lparr>Datastore := \<lparr>Endpoint = EndpointName db, OtherFields = None\<rparr>\<rparr>)
                  handler (env w)),
           c\<lparr>config := (config c)\<lparr>Datastore := \<lparr>Endpoint = EndpointName db, OtherFields = None\<rparr>\<rparr>\<rparr>,
           \<lparr>env = snd (Register db
                          ((config c)\<lparr>Datastore := \<lparr>Endpoint = EndpointName db, OtherFields = None\<rparr>\<rparr>)
                          handler (env w)),
            calls = calls w @ [Call_Register (EndpointName db)]\<rparr>))
   \<and> (managedDB c = Some db \<and>
        (\<exists>rest. Endpoint (Datastore (config c)) = EndpointName db @ ''://'' @ rest) \<longrightarrow>
        initClusterDB c handler w =
          (fst (Register db (config c) handler (env w)),
           c,
           \<lparr>env = snd (Register db (config c) handler (env w)),
            calls = calls w @ [Call_Register (EndpointName db)]\<rparr>))"
proof (intro conjI impI)
  assume "managedDB c = None"
  then show "initClusterDB c handler w = ((handler, None), c, w)"
    by (simp add: initClusterDB_def)
next
  assume a: "managedDB c = Some db \<and>
        (\<nexists>rest. Endpoint (Datastore (config c)) = EndpointName db @ ''://'' @ rest)"
  then have "\<not> strings_HasPrefix (Endpoint (Datastore (config c))) (EndpointName db @ ''://'')"
    by (simp add: strings_HasPrefix_iff)
  with a show "initClusterDB c handler w =
          (fst (Register db
                  ((config c)\<lparr>Datastore := \<lparr>Endpoint = EndpointName db, OtherFields = None\<rparr>\<rparr>)
                  handler (env w)),
           c\<lparr>config := (config c)\<lparr>Datastore := \<lparr>Endpoint = EndpointName db, OtherFields = None\<rparr>\<rparr>\<rparr>,
           \<lparr>env = snd (Register db
                          ((config c)\<lparr>Datastore := \<lparr>Endpoint = EndpointName db, OtherFields = None\<rparr>\<rparr>)
                          handler (env w)),
            calls = calls w @ [Call_Register (EndpointName db)]\<rparr>)"
    by (simp add: initClusterDB_def emit_def world_eq split: prod.splits)
next
  assume a: "managedDB c = Some db \<and>
        (\<exists>rest. Endpoint (Datastore (config c)) = EndpointName db @ ''://'' @ rest)"
  then have "strings_HasPrefix (Endpoint (Datastore (config c))) (EndpointName db @ ''://'')"
    by (simp add: strings_HasPrefix_iff)
  with a show "initClusterDB c handler w =
          (fst (Register db (config c) handler (env w)),
           c,
           \<lparr>env = snd (Register db (config c) handler (env w)),
            calls = calls w @ [Call_Register (EndpointName db)]\<rparr>)"
    by (simp add: initClusterDB_def emit_def world_eq split: prod.splits)
qed

theorem initClusterDB_registers_witness:
  "initClusterDB (demo_cluster demo_config None) [''/ping''] (demo_world no_files)
     = (([''/ping''], None), demo_cluster demo_config None, demo_world no_files)
   \<and> initClusterDB
       (demo_cluster (demo_config\<lparr>Datastore := \<lparr>Endpoint = ''https://10.0.0.1:2379'', OtherFields = Some ()\<rparr>\<rparr>)
          (Some (stub_driver ''etcd'')))
       [''/ping''] (demo_world no_files)
     = (([''/ping'', ''/db/info?endpoint=etcd''], None),
        demo_cluster (demo_config\<lparr>Datastore := \<lparr>Endpoint = ''etcd'', OtherFields = None\<rparr>\<rparr>)
          (Some (stub_driver ''etcd'')),
        \<lparr>env = \<lparr>files = no_files, dstate = 0\<rparr>, calls = [Call_Register ''etcd'']\<rparr>)
   \<and> initClusterDB
       (demo_cluster (demo_config\<lparr>Datastore := \<lparr>Endpoint = ''etcd://10.0.0.1:2379'', OtherFields = Some ()\<rparr>\<rparr>)
          (Some (stub_driver ''etcd'')))
       [''/ping''] (demo_world no_files)
     = (([''/ping'', ''/db/info?endpoint=etcd://10.0.0.1:2379''], None),
        demo_cluster (demo_config\<lparr>Datastore := \<lparr>Endpoint = ''etcd://10.0.0.1:2379'', OtherFields = Some ()\<rparr>\<rparr>)
          (Some (stub_driver ''etcd'')),
        \<lparr>env = \<lparr>files = no_files, dstate = 0\<rparr>, calls = [Call_Register ''etcd'']\<rparr>)"
  using initClusterDB_registers
          [of "demo_cluster demo_config None" "[''/ping'']" "demo_world no_files" "stub_driver ''etcd''"]
        initClusterDB_registers
          [of "demo_cluster (demo_config\<lparr>Datastore := \<lparr>Endpoint = ''https://10.0.0.1:2379'', OtherFields = Some ()\<rparr>\<rparr>)
                 (Some (stub_driver ''etcd''))"
              "[''/ping'']" "demo_world no_files" "stub_driver ''etcd''"]
        initClusterDB_registers
          [of "demo_cluster (demo_config\<lparr>Datastore := \<lparr>Endpoint = ''etcd://10.0.0.1:2379'', OtherFields = Some ()\<rparr>\<rparr>)
                 (Some (stub_driver ''etcd''))"
              "[''/ping'']" "demo_world no_files" "stub_driver ''etcd''"]
  by (simp add: demo_cluster_def demo_config_def demo_world_def stub_driver_def)

section \<open>The membership proxy updater\<close>

text \<open>
  C7. With a driver bound, the task is started with that driver, and one cycle of it
  calls \<open>GetMembersClientURLs\<close> once. If the call returns an error, the cycle logs a
  warning and the proxy is as it was: \<open>Update\<close> is not called. If it returns no error,
  the cycle calls \<open>Update\<close> once, with the list just returned, and the proxy's addresses
  are that list.
\<close>

theorem setupEtcdProxy_cycle_fail_open:
  assumes "managedDB c = Some db"
  shows "setupEtcdProxy c = Some db \<and>
         (case GetMembersClientURLs db (env w) of
            ((newAddresses, Some e), e1) \<Rightarrow>
              setupEtcdProxy_cycle db (w, etcdProxy) =
                (\<lparr>env = e1,
                  calls = calls w @ [Call_GetMembersClientURLs (EndpointName db),
                                     Logrus_Warn (''failed to get etcd client URLs: '' @ Error_text e)]\<rparr>,
                 etcdProxy)
          | ((newAddresses, None), e1) \<Rightarrow>
              setupEtcdProxy_cycle db (w, etcdProxy) =
                (\<lparr>env = e1,
                  calls = calls w @ [Call_GetMembersClientURLs (EndpointName db),
                                     Proxy_Update newAddresses]\<rparr>,
                 \<lparr>addresses = newAddresses\<rparr>))"
  using assms
  by (auto simp add: setupEtcdProxy_def setupEtcdProxy_cycle_def emit_def proxy_Update_def
      split: prod.splits option.splits)

theorem setupEtcdProxy_cycle_fail_open_witness:
  "setupEtcdProxy (demo_cluster demo_config (Some (stub_driver ''etcd''))) = Some (stub_driver ''etcd'')
   \<and> setupEtcdProxy_cycle (stub_driver ''etcd'')
        (\<lparr>env = \<lparr>files = no_files, dstate = 0\<rparr>, calls = []\<rparr>, \<lparr>addresses = []\<rparr>)
     = (\<lparr>env = \<lparr>files = no_files, dstate = 1\<rparr>,
         calls = [Call_GetMembersClientURLs ''etcd'', Proxy_Update [''https://10.0.0.1:2379'']]\<rparr>,
        \<lparr>addresses = [''https://10.0.0.1:2379'']\<rparr>)
   \<and> setupEtcdProxy_cycle (stub_driver ''etcd'')
        (\<lparr>env = \<lparr>files = no_files, dstate = 1\<rparr>, calls = []\<rparr>, \<lparr>addresses = [''https://10.0.0.1:2379'']\<rparr>)
     = (\<lparr>env = \<lparr>files = no_files, dstate = 2\<rparr>,
         calls = [Call_GetMembersClientURLs ''etcd'',
                  Logrus_Warn ''failed to get etcd client URLs: context deadline exceeded'']\<rparr>,
        \<lparr>addresses = [''https://10.0.0.1:2379'']\<rparr>)"
  using setupEtcdProxy_cycle_fail_open
          [of "demo_cluster demo_config (Some (stub_driver ''etcd''))" "stub_driver ''etcd''"
              "\<lparr>env = \<lparr>files = no_files, dstate = 0\<rparr>, calls = []\<rparr>" "\<lparr>addresses = []\<rparr>"]
        setupEtcdProxy_cycle_fail_open
          [of "demo_cluster demo_config (Some (stub_driver ''etcd''))" "stub_driver ''etcd''"
              "\<lparr>env = \<lparr>files = no_files, dstate = 1\<rparr>, calls = []\<rparr>"
              "\<lparr>addresses = [''https://10.0.0.1:2379'']\<rparr>"]
  by (simp add: demo_cluster_def stub_driver_def)

text \<open>
  Three ticks of the stub: the second query fails and leaves the addresses of the first
  tick in place; the third replaces them.
\<close>

lemma setupEtcdProxy_ticks_stub:
  "addresses (snd (setupEtcdProxy_ticks (stub_driver ''etcd'') (Suc 0)
                     (demo_world no_files, \<lparr>addresses = []\<rparr>))) = [''https://10.0.0.1:2379'']"
  "addresses (snd (setupEtcdProxy_ticks (stub_driver ''etcd'') (Suc (Suc 0))
                     (demo_world no_files, \<lparr>addresses = []\<rparr>))) = [''https://10.0.0.1:2379'']"
  "addresses (snd (setupEtcdProxy_ticks (stub_driver ''etcd'') (Suc (Suc (Suc 0)))
                     (demo_world no_files, \<lparr>addresses = []\<rparr>)))
     = [''https://10.0.0.1:2379'', ''https://10.0.0.2:2379'']"
  by (simp_all add: setupEtcdProxy_cycle_def stub_driver_def demo_world_def emit_def proxy_Update_def)

end
